theory Spec2Isabelle
  imports Complex_Main "HOL-Library.Sublist"
begin

section \<open>Python values exchanged as JSON\<close>

text \<open>
  The policy engine stub (app.py) and the SDK client (client.py) work on parsed JSON:
  Python's None, bool, int, float, str, list and dict. A dict is an association list
  whose keys are distinct; a str is its sequence of bytes in UTF-8; a float is a finite
  value, read as a real.
\<close>

datatype json =
    JNull
  | JBool bool
  | JInt int
  | JFloat real
  | JStr string
  | JArr "json list"
  | JObj "(string \<times> json) list"

text \<open>The exceptions the modelled code can raise.\<close>

datatype py_error =
    AttributeError
  | TypeError
  | HTTPStatusError

text \<open>\<open>x.get(k, d)\<close>: only a dict has the method.\<close>

definition lookup_default :: "(string \<times> 'v) list \<Rightarrow> string \<Rightarrow> 'v \<Rightarrow> 'v" where
  "lookup_default kvs k d = (case map_of kvs k of None \<Rightarrow> d | Some v \<Rightarrow> v)"

fun dict_get :: "json \<Rightarrow> string \<Rightarrow> json \<Rightarrow> py_error + json" where
  "dict_get (JObj kvs) k d = Inr (lookup_default kvs k d)"
| "dict_get _ k d = Inl AttributeError"

text \<open>Truth value of a Python object: None, False, zero and empty containers are false.\<close>

fun py_truthy :: "json \<Rightarrow> bool" where
  "py_truthy JNull = False"
| "py_truthy (JBool b) = b"
| "py_truthy (JInt n) = (n \<noteq> 0)"
| "py_truthy (JFloat x) = (x \<noteq> 0)"
| "py_truthy (JStr s) = (s \<noteq> [])"
| "py_truthy (JArr xs) = (xs \<noteq> [])"
| "py_truthy (JObj kvs) = (kvs \<noteq> [])"

text \<open>
  \<open>s.lower()\<close>: only a str has the method. On bytes it maps the letters A-Z to a-z
  and keeps every other byte.
\<close>

definition lower_char :: "char \<Rightarrow> char" where
  "lower_char c =
     (case map_of (zip ''ABCDEFGHIJKLMNOPQRSTUVWXYZ'' ''abcdefghijklmnopqrstuvwxyz'') c of
        None \<Rightarrow> c
      | Some l \<Rightarrow> l)"

fun py_lower :: "json \<Rightarrow> py_error + string" where
  "py_lower (JStr s) = Inr (map lower_char s)"
| "py_lower _ = Inl AttributeError"

text \<open>\<open>p in s\<close> on two strs: \<open>p\<close> occurs in \<open>s\<close> as a contiguous piece.\<close>

fun starts_with :: "string \<Rightarrow> string \<Rightarrow> bool" where
  "starts_with [] s = True"
| "starts_with (p # ps) [] = False"
| "starts_with (p # ps) (c # cs) = (p = c \<and> starts_with ps cs)"

fun str_contains :: "string \<Rightarrow> string \<Rightarrow> bool" where
  "str_contains p [] = (p = [])"
| "str_contains p (c # cs) = (starts_with p (c # cs) \<or> str_contains p cs)"

section \<open>app.py: risk scoring\<close>

definition RISK_THRESHOLDS :: "(string \<times> int) list" where
  "RISK_THRESHOLDS = [(''low'', 30), (''medium'', 70), (''high'', 100)]"

definition ACTION_RISKS :: "(string \<times> int) list" where
  "ACTION_RISKS =
     [(''read_document'', 10),
      (''send_email'', 25),
      (''create_task'', 20),
      (''update_record'', 35),
      (''delete_record'', 85),
      (''delete_database'', 95),
      (''execute_code'', 90),
      (''modify_permissions'', 80),
      (''transfer_funds'', 95),
      (''access_admin'', 85)]"

text \<open>
  \<open>ACTION_RISKS.get(action, 50)\<close>: a list or a dict as key is unhashable and raises
  TypeError; any other key that is not a str of the table gives the default.
\<close>

fun ACTION_RISKS_get :: "json \<Rightarrow> py_error + int" where
  "ACTION_RISKS_get (JStr a) = Inr (lookup_default ACTION_RISKS a 50)"
| "ACTION_RISKS_get (JArr xs) = Inl TypeError"
| "ACTION_RISKS_get (JObj kvs) = Inl TypeError"
| "ACTION_RISKS_get _ = Inr 50"

text \<open>A list and a dict are the JSON values that cannot be a dict key.\<close>

fun hashable :: "json \<Rightarrow> bool" where
  "hashable (JArr xs) = False"
| "hashable (JObj kvs) = False"
| "hashable _ = True"

text \<open>Lines 44 and 45: the two reads of the context.\<close>

definition context_action :: "json \<Rightarrow> py_error + json" where
  "context_action context =
     (case dict_get context ''intent'' (JObj []) of
        Inl e \<Rightarrow> Inl e
      | Inr intent \<Rightarrow> dict_get intent ''action'' (JStr ''unknown''))"

definition context_user_id :: "json \<Rightarrow> py_error + json" where
  "context_user_id context =
     (case dict_get context ''intent'' (JObj []) of
        Inl e \<Rightarrow> Inl e
      | Inr intent \<Rightarrow> dict_get intent ''user_id'' (JStr ''unknown''))"

text \<open>
  \<open>calculate_risk_score(context)\<close>. The second argument is the value that
  \<open>random.randint(-5, 10)\<close> returns in this call.
\<close>

definition calculate_risk_score :: "json \<Rightarrow> int \<Rightarrow> py_error + int" where
  "calculate_risk_score context rnd =
     (case context_action context of
        Inl e \<Rightarrow> Inl e
      | Inr action \<Rightarrow>
     (case context_user_id context of
        Inl e \<Rightarrow> Inl e
      | Inr user_id \<Rightarrow>
     (case ACTION_RISKS_get action of
        Inl e \<Rightarrow> Inl e
      | Inr base_risk \<Rightarrow>
     (case py_lower user_id of
        Inl e \<Rightarrow> Inl e
      | Inr low \<Rightarrow>
          (let base_risk' =
                 (if str_contains ''admin'' low \<or> str_contains ''privileged'' low
                  then max 0 (base_risk - 15) else base_risk);
               risk_score = base_risk' + rnd
           in Inr (max 0 (min 100 risk_score)))))))"

definition assess_risk_level :: "int \<Rightarrow> string" where
  "assess_risk_level score =
     (if score < the (map_of RISK_THRESHOLDS ''low'') then ''low''
      else if score < the (map_of RISK_THRESHOLDS ''medium'') then ''medium''
      else ''high'')"

section \<open>app.py: plan generation and the evaluation endpoint\<close>

text \<open>
  What the handler reads from outside the program: the two random draws, the clock, the
  rendering of a value inside an f-string and the text of an exception.
\<close>

record world =
  rand_risk :: int
  rand_eval_ms :: int
  time_now :: int
  utcnow_iso :: string
  fmt :: "json \<Rightarrow> string"
  exc_str :: "py_error \<Rightarrow> string"

definition upper_char :: "char \<Rightarrow> char" where
  "upper_char c =
     (case map_of (zip ''abcdefghijklmnopqrstuvwxyz'' ''ABCDEFGHIJKLMNOPQRSTUVWXYZ'') c of
        None \<Rightarrow> c
      | Some u \<Rightarrow> u)"

fun capitalize :: "string \<Rightarrow> string" where
  "capitalize [] = []"
| "capitalize (c # cs) = upper_char c # map lower_char cs"

definition plan_steps :: "world \<Rightarrow> json \<Rightarrow> json \<Rightarrow> json list" where
  "plan_steps w action parameters =
     [JObj [(''step_id'', JInt 1),
            (''type'', JStr ''validate''),
            (''description'', JStr (''Validate '' @ fmt w action @ '' parameters'')),
            (''required'', JBool True)],
      JObj [(''step_id'', JInt 2),
            (''type'', JStr ''execute''),
            (''action'', action),
            (''parameters'', parameters),
            (''description'', JStr (''Execute '' @ fmt w action)),
            (''required'', JBool True)],
      JObj [(''step_id'', JInt 3),
            (''type'', JStr ''audit''),
            (''description'', JStr (''Log '' @ fmt w action @ '' execution to audit trail'')),
            (''required'', JBool True)]]"

definition generate_plan :: "world \<Rightarrow> json \<Rightarrow> int \<Rightarrow> string \<Rightarrow> py_error + json" where
  "generate_plan w context risk_score risk_level =
     (case context of
        JObj kvs \<Rightarrow>
          (case lookup_default kvs ''intent'' (JObj []) of
             JObj ivs \<Rightarrow>
               (let action = lookup_default ivs ''action'' (JStr ''unknown'');
                    parameters = lookup_default ivs ''parameters'' (JObj []);
                    requires_approval = (risk_level \<in> set [''high'', ''medium'']);
                    steps = plan_steps w action parameters
                in Inr (JObj
                  [(''intent_id'',
                      lookup_default ivs ''intent_id''
                        (JStr (''intent_'' @ fmt w (JInt (time_now w))))),
                   (''timestamp'', JStr (utcnow_iso w @ ''Z'')),
                   (''risk_assessment'', JObj
                      [(''score'', JInt risk_score),
                       (''level'', JStr risk_level),
                       (''factors'', JArr
                          [JStr (''Action type: '' @ fmt w action),
                           JStr (''User: '' @ fmt w (lookup_default ivs ''user_id'' (JStr ''unknown''))),
                           JStr (''Context: '' @ fmt w (JInt (int (length kvs))) @ '' fields provided'')])]),
                   (''approval_required'', JBool requires_approval),
                   (''approval_reason'',
                      if requires_approval
                      then JStr (capitalize risk_level @ '' risk action requires review'')
                      else JNull),
                   (''execution_plan'', JObj
                      [(''steps'', JArr steps),
                       (''estimated_duration_ms'', JInt (int (length steps) * 100)),
                       (''rollback_supported'', JBool True)]),
                   (''policy_metadata'', JObj
                      [(''policy_version'', JStr ''1.0.0''),
                       (''evaluation_time_ms'', JInt (rand_eval_ms w)),
                       (''policies_applied'', JArr
                          [JStr ''global_security'', JStr ''user_permissions'',
                           JStr ''action_registry''])])]))
           | _ \<Rightarrow> Inl AttributeError)
      | _ \<Rightarrow> Inl AttributeError)"

text \<open>\<open>k in x\<close>: a key of a dict, an element of a list, a piece of a str; TypeError otherwise.\<close>

fun py_in :: "string \<Rightarrow> json \<Rightarrow> py_error + bool" where
  "py_in k (JObj kvs) = Inr (k \<in> set (map fst kvs))"
| "py_in k (JArr xs) = Inr (JStr k \<in> set xs)"
| "py_in k (JStr s) = Inr (str_contains k s)"
| "py_in k _ = Inl TypeError"

text \<open>
  The handler returns the pair of a JSON body and a status code. Beside it the model
  returns the calls the handler has made, in order, which is how a claim that a step was
  or was not performed is read.
\<close>

datatype call =
    Logger_info
  | Calculate_risk_score
  | Assess_risk_level
  | Generate_plan
  | Logger_error

type_synonym response = "json \<times> nat"

definition invalid_request :: response where
  "invalid_request =
     (JObj [(''error'', JStr ''Invalid request''),
            (''message'', JStr ''Context with intent is required'')], 400)"

definition evaluation_failed :: "world \<Rightarrow> py_error \<Rightarrow> response" where
  "evaluation_failed w e =
     (JObj [(''error'', JStr ''Policy evaluation failed''),
            (''message'', JStr (exc_str w e))], 500)"

text \<open>
  \<open>evaluate_policy()\<close>, on \<open>context = request.json\<close> (None when the request has no
  body). The argument of the first \<open>logger.info\<close> is evaluated before the call.
\<close>

definition evaluate_policy :: "world \<Rightarrow> json \<Rightarrow> call list \<times> response" where
  "evaluate_policy w context =
     (if \<not> py_truthy context then ([], invalid_request)
      else case py_in ''intent'' context of
        Inl e \<Rightarrow> ([Logger_error], evaluation_failed w e)
      | Inr False \<Rightarrow> ([], invalid_request)
      | Inr True \<Rightarrow>
     (case (case dict_get context ''intent'' (JObj []) of
              Inl e \<Rightarrow> Inl e
            | Inr intent \<Rightarrow> dict_get intent ''action'' JNull) of
        Inl e \<Rightarrow> ([Logger_error], evaluation_failed w e)
      | Inr logged_action \<Rightarrow>
     (case calculate_risk_score context (rand_risk w) of
        Inl e \<Rightarrow> ([Logger_info, Calculate_risk_score, Logger_error], evaluation_failed w e)
      | Inr risk_score \<Rightarrow>
          (let risk_level = assess_risk_level risk_score in
     (case generate_plan w context risk_score risk_level of
        Inl e \<Rightarrow>
          ([Logger_info, Calculate_risk_score, Assess_risk_level, Generate_plan, Logger_error],
           evaluation_failed w e)
      | Inr plan \<Rightarrow>
          ([Logger_info, Calculate_risk_score, Assess_risk_level, Generate_plan, Logger_info],
           (plan, 200)))))))"

section \<open>client.py: permission check\<close>

text \<open>
  The response of the POST to /api/v1/policy/check: whether \<open>raise_for_status()\<close>
  raises on it, and the value of \<open>response.json()\<close>.
\<close>

record http_response =
  raises_for_status :: bool
  json_body :: json

definition check_permission :: "http_response \<Rightarrow> py_error + json" where
  "check_permission response =
     (if raises_for_status response then Inl HTTPStatusError
      else dict_get (json_body response) ''allowed'' (JBool False))"

section \<open>aureus_sdk.models: validated records\<close>

text \<open>
  A model class is a record of its fields, with the field values already of the
  declared types (int as an integer, float as a finite real, Optional as an option).
  Construction checks the bounds that the fields declare with \<open>ge\<close> and \<open>le\<close> and
  either raises ValidationError, with one entry for each failing field, or returns the
  instance with the values it was given.
\<close>

datatype loc_item = Field string | Index nat

datatype error_type = greater_than_equal | less_than_equal

type_synonym ValidationError = "(loc_item list \<times> error_type) list"

definition check_ge :: "string \<Rightarrow> 'a::linorder \<Rightarrow> 'a \<Rightarrow> ValidationError" where
  "check_ge field bound v = (if bound \<le> v then [] else [([Field field], greater_than_equal)])"

definition check_le :: "string \<Rightarrow> 'a::linorder \<Rightarrow> 'a \<Rightarrow> ValidationError" where
  "check_le field bound v = (if v \<le> bound then [] else [([Field field], less_than_equal)])"

fun check_optional :: "('a \<Rightarrow> ValidationError) \<Rightarrow> 'a option \<Rightarrow> ValidationError" where
  "check_optional chk None = []"
| "check_optional chk (Some v) = chk v"

definition nested :: "loc_item \<Rightarrow> ValidationError \<Rightarrow> ValidationError" where
  "nested item errs = map (\<lambda>(loc, t). (item # loc, t)) errs"

definition model_init :: "ValidationError \<Rightarrow> 'a \<Rightarrow> ValidationError + 'a" where
  "model_init errs v = (if errs = [] then Inr v else Inl errs)"

subsection \<open>common.py\<close>

datatype RiskTier = LOW | MEDIUM | HIGH | CRITICAL

datatype Intent = READ | WRITE | DELETE | EXECUTE | ADMIN

datatype DataZone = PUBLIC | INTERNAL | CONFIDENTIAL | RESTRICTED

record Permission =
  action :: string
  resource :: string
  intent :: "Intent option"
  data_zone :: "DataZone option"
  conditions :: "(string \<times> json) list option"

subsection \<open>workflow.py\<close>

datatype SandboxType = MOCK | SIMULATION | CONTAINER | VM | PROCESS

datatype TaskType = ACTION | DECISION | PARALLEL

record RetryConfig =
  max_attempts :: int
  backoff_ms :: int
  backoff_multiplier :: "real option"
  jitter :: "bool option"

definition RetryConfig_errors :: "RetryConfig \<Rightarrow> ValidationError" where
  "RetryConfig_errors r =
     check_ge ''max_attempts'' 1 (max_attempts r)
     @ check_ge ''backoff_ms'' 1 (backoff_ms r)
     @ check_optional (check_ge ''backoff_multiplier'' 0) (backoff_multiplier r)"

definition RetryConfig_validate :: "RetryConfig \<Rightarrow> ValidationError + RetryConfig" where
  "RetryConfig_validate r = model_init (RetryConfig_errors r) r"

record CompensationAction =
  tool :: string
  args :: "(string \<times> json) list"

record CompensationHook =
  on_failure :: "string option"
  on_timeout :: "string option"

record SandboxConfig =
  enabled :: bool
  type :: "SandboxType option"
  simulation_mode :: "bool option"
  permissions :: "(string \<times> json) list option"

record TaskSpec =
  id :: string
  name :: string
  type :: TaskType
  inputs :: "(string \<times> json) list option"
  retry :: "RetryConfig option"
  idempotency_key :: "string option"
  timeout_ms :: "int option"
  risk_tier :: "RiskTier option"
  compensation :: "CompensationHook option"
  compensation_action :: "CompensationAction option"
  tool_name :: "string option"
  required_permissions :: "Permission list option"
  allowed_tools :: "string list option"
  intent :: "Intent option"
  data_zone :: "DataZone option"
  sandbox_config :: "SandboxConfig option"

definition TaskSpec_errors :: "TaskSpec \<Rightarrow> ValidationError" where
  "TaskSpec_errors t =
     check_optional (\<lambda>r. nested (Field ''retry'') (RetryConfig_errors r)) (retry t)
     @ check_optional (check_ge ''timeout_ms'' 1) (timeout_ms t)"

definition TaskSpec_validate :: "TaskSpec \<Rightarrow> ValidationError + TaskSpec" where
  "TaskSpec_validate t = model_init (TaskSpec_errors t) t"

record SafetyRule =
  type :: string
  description :: "string option"

record SafetyPolicy =
  name :: string
  description :: "string option"
  rules :: "SafetyRule list"
  fail_fast :: "bool option"

record WorkflowSpec =
  id :: string
  name :: string
  goal :: "string option"
  constraints :: "string list option"
  success_criteria :: "string list option"
  tasks :: "TaskSpec list"
  dependencies :: "(string \<times> string list) list"
  safety_policy :: "SafetyPolicy option"

definition WorkflowSpec_errors :: "WorkflowSpec \<Rightarrow> ValidationError" where
  "WorkflowSpec_errors w =
     concat (map (\<lambda>(i, t). nested (Field ''tasks'') (nested (Index i) (TaskSpec_errors t)))
                 (enumerate 0 (tasks w)))"

definition WorkflowSpec_validate :: "WorkflowSpec \<Rightarrow> ValidationError + WorkflowSpec" where
  "WorkflowSpec_validate w = model_init (WorkflowSpec_errors w) w"

subsection \<open>execution.py\<close>

record TaskExecutionResult =
  task_id :: string
  status :: string
  result :: "json option"
  error :: "string option"
  duration_ms :: "real option"

definition TaskExecutionResult_errors :: "TaskExecutionResult \<Rightarrow> ValidationError" where
  "TaskExecutionResult_errors r = []"

definition TaskExecutionResult_validate ::
  "TaskExecutionResult \<Rightarrow> ValidationError + TaskExecutionResult" where
  "TaskExecutionResult_validate r = model_init (TaskExecutionResult_errors r) r"

subsection \<open>crv.py\<close>

datatype FailureTaxonomy =
    MISSING_DATA
  | CONFLICT
  | OUT_OF_SCOPE
  | LOW_CONFIDENCE
  | POLICY_VIOLATION
  | TOOL_ERROR
  | NON_DETERMINISM

record ValidationResult =
  valid :: bool
  reason :: "string option"
  confidence :: "real option"
  metadata :: "(string \<times> json) list option"
  failure_code :: "FailureTaxonomy option"
  remediation :: "string option"

definition ValidationResult_errors :: "ValidationResult \<Rightarrow> ValidationError" where
  "ValidationResult_errors v =
     check_optional (\<lambda>c. check_ge ''confidence'' 0 c @ check_le ''confidence'' 1 c)
       (confidence v)"

definition ValidationResult_validate :: "ValidationResult \<Rightarrow> ValidationError + ValidationResult" where
  "ValidationResult_validate v = model_init (ValidationResult_errors v) v"

record GateConfig =
  name :: string
  validators :: "string list"
  block_on_failure :: bool
  required_confidence :: "real option"
  recovery_strategy :: "(string \<times> json) list option"

definition GateConfig_errors :: "GateConfig \<Rightarrow> ValidationError" where
  "GateConfig_errors g =
     check_optional
       (\<lambda>c. check_ge ''required_confidence'' 0 c @ check_le ''required_confidence'' 1 c)
       (required_confidence g)"

definition GateConfig_validate :: "GateConfig \<Rightarrow> ValidationError + GateConfig" where
  "GateConfig_validate g = model_init (GateConfig_errors g) g"

subsection \<open>The workflow invariant of the specification\<close>

text \<open>
  The three conditions the specification puts on a workflow's dependency mapping, as
  predicates on an instance: no task depends on itself, every id the mapping mentions is
  the id of a task in the list, and the edges from a dependency to its dependent have no
  cycle.
\<close>

definition task_ids :: "WorkflowSpec \<Rightarrow> string list" where
  "task_ids w = map TaskSpec.id (tasks w)"

definition no_self_loops :: "WorkflowSpec \<Rightarrow> bool" where
  "no_self_loops w = list_all (\<lambda>(k, ds). k \<notin> set ds) (dependencies w)"

definition no_dangling_references :: "WorkflowSpec \<Rightarrow> bool" where
  "no_dangling_references w =
     list_all (\<lambda>(k, ds). k \<in> set (task_ids w) \<and> list_all (\<lambda>d. d \<in> set (task_ids w)) ds)
       (dependencies w)"

definition dependency_edges :: "WorkflowSpec \<Rightarrow> (string \<times> string) set" where
  "dependency_edges w = {(d, k). \<exists>ds. (k, ds) \<in> set (dependencies w) \<and> d \<in> set ds}"

definition dependencies_form_dag :: "WorkflowSpec \<Rightarrow> bool" where
  "dependencies_form_dag w =
     (no_self_loops w \<and> no_dangling_references w \<and> acyclic (dependency_edges w))"

section \<open>Example instances\<close>

definition context_email :: json where
  "context_email =
     JObj [(''intent'',
            JObj [(''action'', JStr ''send_email''), (''user_id'', JStr ''user123'')])]"

definition context_admin :: json where
  "context_admin =
     JObj [(''intent'',
            JObj [(''action'', JStr ''read_document''), (''user_id'', JStr ''Site-ADMIN-7'')])]"

definition context_no_intent :: json where
  "context_no_intent = JObj [(''user_context'', JObj [])]"

definition world0 :: world where
  "world0 =
     \<lparr>rand_risk = 4, rand_eval_ms = 100, time_now = 1700000000,
      utcnow_iso = ''2024-01-01T00:00:00'',
      fmt = (\<lambda>j. case j of JStr s \<Rightarrow> s | _ \<Rightarrow> ''?''),
      exc_str = (\<lambda>e. ''error'')\<rparr>"

definition retry_bad :: RetryConfig where
  "retry_bad = \<lparr>max_attempts = 0, backoff_ms = 1000, backoff_multiplier = None, jitter = None\<rparr>"

definition retry_good :: RetryConfig where
  "retry_good =
     \<lparr>max_attempts = 5, backoff_ms = 1000, backoff_multiplier = Some 2, jitter = Some True\<rparr>"

definition minimal_task :: "string \<Rightarrow> TaskSpec" where
  "minimal_task i =
     \<lparr>TaskSpec.id = i, TaskSpec.name = ''Test Task'', TaskSpec.type = ACTION, inputs = None,
      retry = None, idempotency_key = None, timeout_ms = None, risk_tier = None,
      compensation = None, compensation_action = None, tool_name = None,
      required_permissions = None, allowed_tools = None, TaskSpec.intent = None,
      TaskSpec.data_zone = None, sandbox_config = None\<rparr>"

definition workflow_of :: "string list \<Rightarrow> (string \<times> string list) list \<Rightarrow> WorkflowSpec" where
  "workflow_of ids deps =
     \<lparr>WorkflowSpec.id = ''test-workflow'', WorkflowSpec.name = ''Test Workflow'', goal = None,
      constraints = None, success_criteria = None, tasks = map minimal_task ids,
      dependencies = deps, safety_policy = None\<rparr>"

definition result_running :: TaskExecutionResult where
  "result_running =
     \<lparr>task_id = ''task1'', status = ''running'', result = None, error = None,
      duration_ms = None\<rparr>"

definition validation_of :: "real option \<Rightarrow> ValidationResult" where
  "validation_of c =
     \<lparr>valid = True, reason = None, confidence = c, metadata = None, failure_code = None,
      remediation = None\<rparr>"

definition gate_of :: "real option \<Rightarrow> GateConfig" where
  "gate_of c =
     \<lparr>GateConfig.name = ''gate'', validators = [''schema''], block_on_failure = True,
      required_confidence = c, recovery_strategy = None\<rparr>"

section \<open>Helper lemmas\<close>

lemma starts_with_prefix: "starts_with p s = prefix p s"
  by (induction p s rule: starts_with.induct) auto

lemma str_contains_sublist: "str_contains p s = sublist p s"
  by (induction s) (auto simp: starts_with_prefix sublist_Cons_right)

lemma ACTION_RISKS_get_hashable: "hashable a \<Longrightarrow> \<exists>b. ACTION_RISKS_get a = Inr b"
  by (cases a) auto

lemma calculate_risk_score_clamped:
  "calculate_risk_score context rnd = Inr s \<Longrightarrow> 0 \<le> s \<and> s \<le> 100"
  by (auto simp: calculate_risk_score_def Let_def split: sum.splits if_splits)

lemma clamp_spread:
  fixes b r1 r2 :: int
  assumes "-5 \<le> r1" "r1 \<le> 10" "-5 \<le> r2" "r2 \<le> 10"
  shows "\<bar>max 0 (min 100 (b + r1)) - max 0 (min 100 (b + r2))\<bar> \<le> 15"
  using assms by (auto simp: max_def min_def abs_if)

lemma model_init_Inr: "model_init errs v = Inr v' \<longleftrightarrow> errs = [] \<and> v' = v"
  by (auto simp: model_init_def)

lemma model_init_isl: "isl (model_init errs v) \<longleftrightarrow> errs \<noteq> []"
  by (simp add: model_init_def)

lemma nested_empty: "nested item errs = [] \<longleftrightarrow> errs = []"
  by (simp add: nested_def)

lemma enumerate_all:
  "(\<forall>p \<in> set (enumerate n xs). P (snd p)) \<longleftrightarrow> (\<forall>x \<in> set xs. P x)"
  by (induction xs arbitrary: n) auto

lemma WorkflowSpec_errors_empty:
  "WorkflowSpec_errors w = [] \<longleftrightarrow> list_all (\<lambda>t. TaskSpec_errors t = []) (tasks w)"
proof -
  have "WorkflowSpec_errors w = [] \<longleftrightarrow>
        (\<forall>p \<in> set (enumerate 0 (tasks w)). TaskSpec_errors (snd p) = [])"
    by (auto simp: WorkflowSpec_errors_def nested_empty split: prod.splits)
  then show ?thesis
    by (simp add: enumerate_all [where P = "\<lambda>t. TaskSpec_errors t = []"] list_all_iff)
qed

lemma RetryConfig_errors_empty:
  "RetryConfig_errors r = [] \<longleftrightarrow>
     1 \<le> max_attempts r \<and> 1 \<le> backoff_ms r
     \<and> (case backoff_multiplier r of None \<Rightarrow> True | Some m \<Rightarrow> 0 \<le> m)"
  by (auto simp: RetryConfig_errors_def check_ge_def split: option.splits)

lemma TaskSpec_errors_empty:
  "TaskSpec_errors t = [] \<longleftrightarrow>
     (case retry t of None \<Rightarrow> True | Some r \<Rightarrow> RetryConfig_errors r = [])
     \<and> (case timeout_ms t of None \<Rightarrow> True | Some n \<Rightarrow> 1 \<le> n)"
  by (auto simp: TaskSpec_errors_def check_ge_def nested_empty split: option.splits)

lemma check_ge_empty: "check_ge f b v = [] \<longleftrightarrow> b \<le> v"
  by (simp add: check_ge_def)

lemma check_le_empty: "check_le f b v = [] \<longleftrightarrow> v \<le> b"
  by (simp add: check_le_def)

lemma dict_get_not_object:
  "\<not> (\<exists>ivs. v = JObj ivs) \<Longrightarrow> dict_get v k d = Inl AttributeError"
  by (cases v) auto

lemma generate_plan_after_score:
  "calculate_risk_score context rnd = Inr s \<Longrightarrow> \<exists>plan. generate_plan w context s l = Inr plan"
  by (auto simp: calculate_risk_score_def context_action_def generate_plan_def Let_def
      elim!: dict_get.elims split: sum.splits json.splits)

lemma two_cycle_not_acyclic:
  "\<not> acyclic (dependency_edges (workflow_of [''a'', ''b''] [(''a'', [''b'']), (''b'', [''a''])]))"
proof -
  let ?E = "dependency_edges (workflow_of [''a'', ''b''] [(''a'', [''b'']), (''b'', [''a''])])"
  have "(''a'', ''b'') \<in> ?E" "(''b'', ''a'') \<in> ?E"
    by (simp_all add: dependency_edges_def workflow_of_def)
  then have "(''a'', ''a'') \<in> ?E\<^sup>+"
    by (rule trancl_into_trancl [OF r_into_trancl])
  then show ?thesis
    by (auto simp: acyclic_def)
qed

section \<open>The claims\<close>

text \<open>
  Claim C1, as stated, fails. Construction accepts a workflow whose only task depends on
  itself, a workflow whose mapping names a task id that is not in the task list, and a
  workflow whose two tasks depend on each other: each is returned as given, and none of
  them satisfies the invariant.
\<close>

theorem WorkflowSpec_accepts_non_dag:
  "WorkflowSpec_validate (workflow_of [''task1''] [(''task1'', [''task1''])])
     = Inr (workflow_of [''task1''] [(''task1'', [''task1''])])
   \<and> \<not> no_self_loops (workflow_of [''task1''] [(''task1'', [''task1''])])
   \<and> \<not> dependencies_form_dag (workflow_of [''task1''] [(''task1'', [''task1''])])
   \<and> WorkflowSpec_validate (workflow_of [''task1''] [(''task1'', [''ghost''])])
     = Inr (workflow_of [''task1''] [(''task1'', [''ghost''])])
   \<and> \<not> no_dangling_references (workflow_of [''task1''] [(''task1'', [''ghost''])])
   \<and> \<not> dependencies_form_dag (workflow_of [''task1''] [(''task1'', [''ghost''])])
   \<and> WorkflowSpec_validate (workflow_of [''a'', ''b''] [(''a'', [''b'']), (''b'', [''a''])])
     = Inr (workflow_of [''a'', ''b''] [(''a'', [''b'']), (''b'', [''a''])])
   \<and> \<not> dependencies_form_dag
         (workflow_of [''a'', ''b''] [(''a'', [''b'']), (''b'', [''a''])])"
  using two_cycle_not_acyclic
  by (simp add: WorkflowSpec_validate_def model_init_Inr WorkflowSpec_errors_empty
      TaskSpec_errors_empty workflow_of_def minimal_task_def dependencies_form_dag_def
      no_self_loops_def no_dangling_references_def task_ids_def)

text \<open>
  Claim C1, amended. WorkflowSpec declares no validator for its dependency mapping:
  construction succeeds exactly when every task of the list is itself valid, whatever the
  mapping is, and the instance returned holds the task list and the mapping as given.
\<close>

theorem WorkflowSpec_validate_tasks_only:
  "((\<exists>w'. WorkflowSpec_validate (w\<lparr>dependencies := deps\<rparr>) = Inr w')
      \<longleftrightarrow> list_all (\<lambda>t. TaskSpec_validate t = Inr t) (tasks w))
   \<and> (\<forall>w'. WorkflowSpec_validate (w\<lparr>dependencies := deps\<rparr>) = Inr w'
         \<longrightarrow> w' = w\<lparr>dependencies := deps\<rparr>)"
  by (simp add: WorkflowSpec_validate_def TaskSpec_validate_def model_init_Inr
      WorkflowSpec_errors_empty)

text \<open>
  Claim C1, amended, at the workflow of one valid task that depends on itself.
\<close>

theorem WorkflowSpec_validate_tasks_only_witness:
  "WorkflowSpec_validate (workflow_of [''task1''] [(''task1'', [''task1''])])
     = Inr (workflow_of [''task1''] [(''task1'', [''task1''])])"
proof -
  have t: "list_all (\<lambda>t. TaskSpec_validate t = Inr t) (tasks (workflow_of [''task1''] []))"
    by (simp add: workflow_of_def TaskSpec_validate_def model_init_Inr TaskSpec_errors_empty
        minimal_task_def)
  have u: "(workflow_of [''task1''] [])\<lparr>dependencies := [(''task1'', [''task1''])]\<rparr>
           = workflow_of [''task1''] [(''task1'', [''task1''])]"
    by (simp add: workflow_of_def)
  show ?thesis
    using WorkflowSpec_validate_tasks_only [where w = "workflow_of [''task1''] []" and deps = "[(''task1'', [''task1''])]"] t u
    by auto
qed

text \<open>
  Claim C2, as stated, fails. The status field is a plain str: a result with status
  "running" is constructed, and "running" is none of success, failed, skipped.
\<close>

theorem TaskExecutionResult_accepts_other_status:
  "TaskExecutionResult_validate result_running = Inr result_running
   \<and> status result_running \<notin> {''success'', ''failed'', ''skipped''}"
  by (simp add: TaskExecutionResult_validate_def TaskExecutionResult_errors_def
      model_init_def result_running_def)

text \<open>
  Claim C2, amended. A TaskExecutionResult is constructed with any status string, and the
  instance holds that string; the three values of the field's description are not
  enforced.
\<close>

theorem TaskExecutionResult_validate_any_status:
  "TaskExecutionResult_validate (r\<lparr>status := s\<rparr>) = Inr (r\<lparr>status := s\<rparr>)"
  by (simp add: TaskExecutionResult_validate_def TaskExecutionResult_errors_def model_init_def)

text \<open>
  Claim C4, as stated, fails. On one and the same context two invocations return 20 and
  35, when random.randint(-5, 10) returns -5 in the first and 10 in the second.
\<close>

theorem calculate_risk_score_differs:
  "calculate_risk_score context_email (-5) = Inr 20
   \<and> calculate_risk_score context_email 10 = Inr 35
   \<and> calculate_risk_score context_email (-5) \<noteq> calculate_risk_score context_email 10"
  by (simp add: context_email_def calculate_risk_score_def context_action_def
      context_user_id_def lookup_default_def ACTION_RISKS_def lower_char_def Let_def)

text \<open>
  Claim C4, amended. The score depends on the context and on the random draw only. For a
  fixed context, two invocations either raise the same exception or return two scores
  that differ by at most 15, the width of the range -5..10 of the draw.
\<close>

theorem calculate_risk_score_spread:
  assumes "-5 \<le> r1" "r1 \<le> 10" "-5 \<le> r2" "r2 \<le> 10"
  shows "(case (calculate_risk_score context r1, calculate_risk_score context r2) of
      (Inr s1, Inr s2) \<Rightarrow> \<bar>s1 - s2\<bar> \<le> 15
    | (Inl e1, Inl e2) \<Rightarrow> e1 = e2
    | _ \<Rightarrow> False)"
  using clamp_spread [OF assms]
  by (simp add: calculate_risk_score_def Let_def split: sum.splits)

text \<open>
  Claim C4, amended, at the two extreme draws on the send_email context, where the two
  scores are exactly 15 apart.
\<close>

theorem calculate_risk_score_spread_witness:
  "(-5::int) \<le> -5 \<and> (-5::int) \<le> 10 \<and> (10::int) \<le> 10
   \<and> (case (calculate_risk_score context_email (-5), calculate_risk_score context_email 10) of
      (Inr s1, Inr s2) \<Rightarrow> \<bar>s1 - s2\<bar> \<le> 15
    | (Inl e1, Inl e2) \<Rightarrow> e1 = e2
    | _ \<Rightarrow> False)"
  using calculate_risk_score_spread [of "-5" 10 context_email] by simp

text \<open>
  Claim C5. For every context whose intent gives a hashable action (any str is one) and
  a str user_id, each read falling back to 'unknown' where the key is absent, and for
  every value of the random adjustment, calculate_risk_score returns an integer score
  with 0 <= score <= 100.
\<close>

theorem calculate_risk_score_range:
  assumes "context_action context = Inr act" and "hashable act"
    and "context_user_id context = Inr (JStr user_id)"
  shows "\<exists>score. calculate_risk_score context rnd = Inr score \<and> 0 \<le> score \<and> score \<le> 100"
proof -
  obtain b where b: "ACTION_RISKS_get act = Inr b"
    using ACTION_RISKS_get_hashable [OF assms(2)] by blast
  have "\<exists>score. calculate_risk_score context rnd = Inr score"
    using assms(1,3) b by (simp add: calculate_risk_score_def Let_def)
  then show ?thesis
    using calculate_risk_score_clamped by blast
qed

text \<open>
  Claim C5 at the read_document context of an admin user with the lowest draw, where
  the sum before clamping is negative.
\<close>

theorem calculate_risk_score_range_witness:
  "context_action context_admin = Inr (JStr ''read_document'')
   \<and> hashable (JStr ''read_document'')
   \<and> context_user_id context_admin = Inr (JStr ''Site-ADMIN-7'')
   \<and> (\<exists>score. calculate_risk_score context_admin (-5) = Inr score \<and> 0 \<le> score \<and> score \<le> 100)"
proof -
  have a: "context_action context_admin = Inr (JStr ''read_document'')"
    by (simp add: context_admin_def context_action_def lookup_default_def)
  have h: "hashable (JStr ''read_document'')" by simp
  have u: "context_user_id context_admin = Inr (JStr ''Site-ADMIN-7'')"
    by (simp add: context_admin_def context_user_id_def lookup_default_def)
  show ?thesis
    using a h u calculate_risk_score_range [OF a h u, of "-5"] by simp
qed

text \<open>
  Claim C6. A RetryConfig with max_attempts < 1, backoff_ms < 1 or a backoff_multiplier
  < 0 is rejected, and so is a TaskSpec with a timeout_ms < 1. A RetryConfig that is
  constructed holds the values given, with max_attempts >= 1, backoff_ms >= 1 and
  backoff_multiplier >= 0 when present; a TaskSpec that is constructed holds the values
  given, with timeout_ms >= 1 when present and a retry configuration, when present,
  within the same bounds.
\<close>

theorem retry_and_timeout_bounds:
  "((max_attempts r1 < 1 \<or> backoff_ms r1 < 1
       \<or> (\<exists>m. backoff_multiplier r1 = Some m \<and> m < 0))
      \<longrightarrow> isl (RetryConfig_validate r1))
   \<and> ((\<exists>n. timeout_ms t1 = Some n \<and> n < 1) \<longrightarrow> isl (TaskSpec_validate t1))
   \<and> (RetryConfig_validate r2 = Inr r2'
      \<longrightarrow> r2' = r2 \<and> 1 \<le> max_attempts r2' \<and> 1 \<le> backoff_ms r2'
          \<and> (case backoff_multiplier r2' of None \<Rightarrow> True | Some m \<Rightarrow> 0 \<le> m))
   \<and> (TaskSpec_validate t2 = Inr t2'
      \<longrightarrow> t2' = t2 \<and> (case timeout_ms t2' of None \<Rightarrow> True | Some n \<Rightarrow> 1 \<le> n)
          \<and> (case retry t2' of None \<Rightarrow> True
              | Some rc \<Rightarrow> 1 \<le> max_attempts rc \<and> 1 \<le> backoff_ms rc
                  \<and> (case backoff_multiplier rc of None \<Rightarrow> True | Some m \<Rightarrow> 0 \<le> m)))"
proof (intro conjI impI)
  assume "max_attempts r1 < 1 \<or> backoff_ms r1 < 1
            \<or> (\<exists>m. backoff_multiplier r1 = Some m \<and> m < 0)"
  then have "RetryConfig_errors r1 \<noteq> []"
    by (auto simp: RetryConfig_errors_empty)
  then show "isl (RetryConfig_validate r1)"
    by (simp add: RetryConfig_validate_def model_init_isl)
next
  assume "\<exists>n. timeout_ms t1 = Some n \<and> n < 1"
  then have "TaskSpec_errors t1 \<noteq> []"
    by (auto simp: TaskSpec_errors_empty)
  then show "isl (TaskSpec_validate t1)"
    by (simp add: TaskSpec_validate_def model_init_isl)
next
  assume "RetryConfig_validate r2 = Inr r2'"
  then show "r2' = r2" "1 \<le> max_attempts r2'" "1 \<le> backoff_ms r2'"
    "case backoff_multiplier r2' of None \<Rightarrow> True | Some m \<Rightarrow> 0 \<le> m"
    by (auto simp: RetryConfig_validate_def model_init_Inr RetryConfig_errors_empty)
next
  assume "TaskSpec_validate t2 = Inr t2'"
  then show "t2' = t2" "case timeout_ms t2' of None \<Rightarrow> True | Some n \<Rightarrow> 1 \<le> n"
    "case retry t2' of None \<Rightarrow> True
     | Some rc \<Rightarrow> 1 \<le> max_attempts rc \<and> 1 \<le> backoff_ms rc
         \<and> (case backoff_multiplier rc of None \<Rightarrow> True | Some m \<Rightarrow> 0 \<le> m)"
    by (auto simp: TaskSpec_validate_def model_init_Inr TaskSpec_errors_empty
        RetryConfig_errors_empty split: option.splits)
qed

text \<open>
  Claim C6 at a RetryConfig with max_attempts = 0, a TaskSpec with timeout_ms = -1, and
  the valid instances of the test suite.
\<close>

theorem retry_and_timeout_bounds_witness:
  "max_attempts retry_bad < 1 \<and> isl (RetryConfig_validate retry_bad)
   \<and> timeout_ms ((minimal_task ''task1'')\<lparr>timeout_ms := Some (-1)\<rparr>) = Some (-1)
   \<and> isl (TaskSpec_validate ((minimal_task ''task1'')\<lparr>timeout_ms := Some (-1)\<rparr>))
   \<and> RetryConfig_validate retry_good = Inr retry_good
   \<and> 1 \<le> max_attempts retry_good \<and> 1 \<le> backoff_ms retry_good
   \<and> TaskSpec_validate ((minimal_task ''task1'')\<lparr>retry := Some retry_good, timeout_ms := Some 5000\<rparr>)
       = Inr ((minimal_task ''task1'')\<lparr>retry := Some retry_good, timeout_ms := Some 5000\<rparr>)"
proof -
  have b: "max_attempts retry_bad < 1"
    by (simp add: retry_bad_def)
  have t: "timeout_ms ((minimal_task ''task1'')\<lparr>timeout_ms := Some (-1)\<rparr>) = Some (-1)"
    by simp
  have g: "RetryConfig_validate retry_good = Inr retry_good"
    by (simp add: RetryConfig_validate_def model_init_Inr RetryConfig_errors_empty
        retry_good_def)
  have k: "TaskSpec_validate
             ((minimal_task ''task1'')\<lparr>retry := Some retry_good, timeout_ms := Some 5000\<rparr>)
           = Inr ((minimal_task ''task1'')\<lparr>retry := Some retry_good, timeout_ms := Some 5000\<rparr>)"
    by (simp add: TaskSpec_validate_def model_init_Inr TaskSpec_errors_empty
        RetryConfig_errors_empty retry_good_def)
  show ?thesis
    using b t g k
      retry_and_timeout_bounds [of retry_bad "(minimal_task ''task1'')\<lparr>timeout_ms := Some (-1)\<rparr>"
        retry_good retry_good
        "(minimal_task ''task1'')\<lparr>retry := Some retry_good, timeout_ms := Some 5000\<rparr>"
        "(minimal_task ''task1'')\<lparr>retry := Some retry_good, timeout_ms := Some 5000\<rparr>"]
    by simp
qed

text \<open>
  Claim C7. A ValidationResult whose confidence lies outside [0, 1] is rejected, and one
  that is constructed has its confidence, when present, in [0, 1]; the same holds of a
  GateConfig and its required_confidence.
\<close>

theorem confidence_unit_interval:
  "((\<exists>c. confidence v1 = Some c \<and> (c < 0 \<or> 1 < c)) \<longrightarrow> isl (ValidationResult_validate v1))
   \<and> (ValidationResult_validate v2 = Inr v2'
      \<longrightarrow> v2' = v2 \<and> (case confidence v2' of None \<Rightarrow> True | Some c \<Rightarrow> 0 \<le> c \<and> c \<le> 1))
   \<and> ((\<exists>c. required_confidence g1 = Some c \<and> (c < 0 \<or> 1 < c))
      \<longrightarrow> isl (GateConfig_validate g1))
   \<and> (GateConfig_validate g2 = Inr g2'
      \<longrightarrow> g2' = g2
          \<and> (case required_confidence g2' of None \<Rightarrow> True | Some c \<Rightarrow> 0 \<le> c \<and> c \<le> 1))"
proof (intro conjI impI)
  assume "\<exists>c. confidence v1 = Some c \<and> (c < 0 \<or> 1 < c)"
  then have "ValidationResult_errors v1 \<noteq> []"
    by (auto simp: ValidationResult_errors_def check_ge_empty check_le_empty)
  then show "isl (ValidationResult_validate v1)"
    by (simp add: ValidationResult_validate_def model_init_isl)
next
  assume "ValidationResult_validate v2 = Inr v2'"
  then show "v2' = v2" "case confidence v2' of None \<Rightarrow> True | Some c \<Rightarrow> 0 \<le> c \<and> c \<le> 1"
    by (auto simp: ValidationResult_validate_def model_init_Inr ValidationResult_errors_def
        check_ge_empty check_le_empty split: option.splits)
next
  assume "\<exists>c. required_confidence g1 = Some c \<and> (c < 0 \<or> 1 < c)"
  then have "GateConfig_errors g1 \<noteq> []"
    by (auto simp: GateConfig_errors_def check_ge_empty check_le_empty)
  then show "isl (GateConfig_validate g1)"
    by (simp add: GateConfig_validate_def model_init_isl)
next
  assume "GateConfig_validate g2 = Inr g2'"
  then show "g2' = g2"
    "case required_confidence g2' of None \<Rightarrow> True | Some c \<Rightarrow> 0 \<le> c \<and> c \<le> 1"
    by (auto simp: GateConfig_validate_def model_init_Inr GateConfig_errors_def
        check_ge_empty check_le_empty split: option.splits)
qed

text \<open>
  Claim C7 at the confidences 1.5 (rejected) and 0.95 (accepted) and the thresholds -0.1
  (rejected) and 0.8 (accepted).
\<close>

theorem confidence_unit_interval_witness:
  "confidence (validation_of (Some (3/2))) = Some (3/2) \<and> (1::real) < 3/2
   \<and> isl (ValidationResult_validate (validation_of (Some (3/2))))
   \<and> ValidationResult_validate (validation_of (Some (95/100)))
       = Inr (validation_of (Some (95/100)))
   \<and> required_confidence (gate_of (Some (-1/10))) = Some (-1/10) \<and> (-1/10::real) < 0
   \<and> isl (GateConfig_validate (gate_of (Some (-1/10))))
   \<and> GateConfig_validate (gate_of (Some (8/10))) = Inr (gate_of (Some (8/10)))"
proof -
  have a: "confidence (validation_of (Some (3/2))) = Some (3/2) \<and> (1::real) < 3/2"
    by (simp add: validation_of_def)
  have b: "ValidationResult_validate (validation_of (Some (95/100)))
             = Inr (validation_of (Some (95/100)))"
    by (simp add: ValidationResult_validate_def model_init_Inr ValidationResult_errors_def
        check_ge_empty check_le_empty validation_of_def)
  have c: "required_confidence (gate_of (Some (-1/10))) = Some (-1/10) \<and> (-1/10::real) < 0"
    by (simp add: gate_of_def)
  have d: "GateConfig_validate (gate_of (Some (8/10))) = Inr (gate_of (Some (8/10)))"
    by (simp add: GateConfig_validate_def model_init_Inr GateConfig_errors_def
        check_ge_empty check_le_empty gate_of_def)
  note T = confidence_unit_interval [of "validation_of (Some (3/2))" "validation_of (Some (95/100))"
      "validation_of (Some (95/100))" "gate_of (Some (-1/10))" "gate_of (Some (8/10))"
      "gate_of (Some (8/10))"]
  have e1: "\<exists>x. confidence (validation_of (Some (3/2))) = Some x \<and> (x < 0 \<or> 1 < x)"
    by (rule exI [of _ "3/2"]) (simp add: validation_of_def)
  have e2: "\<exists>x. required_confidence (gate_of (Some (-1/10))) = Some x \<and> (x < 0 \<or> 1 < x)"
    by (rule exI [of _ "-1/10"]) (simp add: gate_of_def)
  have r1: "isl (ValidationResult_validate (validation_of (Some (3/2))))"
    using T e1 by blast
  have r2: "isl (GateConfig_validate (gate_of (Some (-1/10))))"
    using T e2 by blast
  show ?thesis
    using a b c d r1 r2 by blast
qed

text \<open>
  Claim C8, as stated, fails. The body {"intent": null} has the key 'intent' and passes
  the guard, but the argument of the first log line raises AttributeError before
  calculate_risk_score is called: the answer is status 500 and no risk score was
  calculated. The body 5 has no key 'intent', but the membership test of the guard raises
  TypeError on it, and the answer is status 500, not 400.
\<close>

theorem evaluate_policy_intent_not_object:
  "evaluate_policy world0 (JObj [(''intent'', JNull)])
     = ([Logger_error],
        (JObj [(''error'', JStr ''Policy evaluation failed''),
               (''message'', JStr (exc_str world0 AttributeError))], 500))
   \<and> Calculate_risk_score \<notin> set (fst (evaluate_policy world0 (JObj [(''intent'', JNull)])))
   \<and> evaluate_policy world0 (JInt 5)
     = ([Logger_error],
        (JObj [(''error'', JStr ''Policy evaluation failed''),
               (''message'', JStr (exc_str world0 TypeError))], 500))"
  by (simp add: evaluate_policy_def evaluation_failed_def lookup_default_def)

text \<open>
  Claim C8, amended. When the request body is absent, empty, or an object without the
  key 'intent', the endpoint returns status 400 with the error 'Invalid request' and has
  made no call: no logging, no risk-score calculation, no plan generation. When the body
  is an object whose value under 'intent' is an object, the endpoint proceeds to risk
  evaluation: calculate_risk_score is called right after the first log line, and the
  answer is status 500 with the exception it raises, or status 200 with the plan
  generated for the score it returns. When the body is an object whose value under
  'intent' is not an object, the guard is passed but the endpoint answers status 500
  with 'Policy evaluation failed' before any risk score is calculated.
\<close>

theorem evaluate_policy_requires_intent:
  "((context = JNull \<or> \<not> py_truthy context
       \<or> (\<exists>kvs. context = JObj kvs \<and> ''intent'' \<notin> fst ` set kvs))
      \<longrightarrow> evaluate_policy w context
            = ([], (JObj [(''error'', JStr ''Invalid request''),
                          (''message'', JStr ''Context with intent is required'')], 400)))
   \<and> ((\<exists>kvs ivs. context' = JObj kvs \<and> map_of kvs ''intent'' = Some (JObj ivs))
      \<longrightarrow> (case calculate_risk_score context' (rand_risk w) of
             Inl e \<Rightarrow>
               evaluate_policy w context'
                 = ([Logger_info, Calculate_risk_score, Logger_error], evaluation_failed w e)
           | Inr score \<Rightarrow>
               (\<exists>plan. generate_plan w context' score (assess_risk_level score) = Inr plan
                  \<and> evaluate_policy w context'
                      = ([Logger_info, Calculate_risk_score, Assess_risk_level, Generate_plan,
                          Logger_info], (plan, 200)))))
   \<and> ((\<exists>kvs v. context'' = JObj kvs \<and> map_of kvs ''intent'' = Some v
          \<and> \<not> (\<exists>ivs. v = JObj ivs))
      \<longrightarrow> evaluate_policy w context''
            = ([Logger_error],
               (JObj [(''error'', JStr ''Policy evaluation failed''),
                      (''message'', JStr (exc_str w AttributeError))], 500)))"
proof (intro conjI impI)
  assume "context = JNull \<or> \<not> py_truthy context
            \<or> (\<exists>kvs. context = JObj kvs \<and> ''intent'' \<notin> fst ` set kvs)"
  then show "evaluate_policy w context
               = ([], (JObj [(''error'', JStr ''Invalid request''),
                             (''message'', JStr ''Context with intent is required'')], 400))"
    by (auto simp: evaluate_policy_def invalid_request_def)
next
  assume "\<exists>kvs ivs. context' = JObj kvs \<and> map_of kvs ''intent'' = Some (JObj ivs)"
  then obtain kvs ivs where c: "context' = JObj kvs"
    and i: "map_of kvs ''intent'' = Some (JObj ivs)"
    by blast
  from i have k: "''intent'' \<in> fst ` set kvs"
    by (force dest: map_of_SomeD)
  from k have ne: "kvs \<noteq> []" by auto
  have unfold: "evaluate_policy w context' =
      (case calculate_risk_score context' (rand_risk w) of
         Inl e \<Rightarrow> ([Logger_info, Calculate_risk_score, Logger_error], evaluation_failed w e)
       | Inr risk_score \<Rightarrow>
           (case generate_plan w context' risk_score (assess_risk_level risk_score) of
              Inl e \<Rightarrow>
                ([Logger_info, Calculate_risk_score, Assess_risk_level, Generate_plan,
                  Logger_error], evaluation_failed w e)
            | Inr plan \<Rightarrow>
                ([Logger_info, Calculate_risk_score, Assess_risk_level, Generate_plan,
                  Logger_info], (plan, 200))))"
    using c i k ne
    by (auto simp: evaluate_policy_def lookup_default_def Let_def split: sum.splits)
  show "case calculate_risk_score context' (rand_risk w) of
          Inl e \<Rightarrow>
            evaluate_policy w context'
              = ([Logger_info, Calculate_risk_score, Logger_error], evaluation_failed w e)
        | Inr score \<Rightarrow>
            (\<exists>plan. generate_plan w context' score (assess_risk_level score) = Inr plan
               \<and> evaluate_policy w context'
                   = ([Logger_info, Calculate_risk_score, Assess_risk_level, Generate_plan,
                       Logger_info], (plan, 200)))"
  proof (cases "calculate_risk_score context' (rand_risk w)")
    case (Inl e)
    then show ?thesis
      by (simp add: unfold)
  next
    case (Inr score)
    obtain plan where p: "generate_plan w context' score (assess_risk_level score) = Inr plan"
      using generate_plan_after_score [OF Inr] by blast
    show ?thesis
      using Inr p by (simp add: unfold)
  qed
next
  assume "\<exists>kvs v. context'' = JObj kvs \<and> map_of kvs ''intent'' = Some v
            \<and> \<not> (\<exists>ivs. v = JObj ivs)"
  then obtain kvs v where c: "context'' = JObj kvs"
    and i: "map_of kvs ''intent'' = Some v" and n: "\<not> (\<exists>ivs. v = JObj ivs)"
    by blast
  from i have k: "''intent'' \<in> fst ` set kvs"
    by (force dest: map_of_SomeD)
  from k have ne: "kvs \<noteq> []" by auto
  show "evaluate_policy w context''
          = ([Logger_error],
             (JObj [(''error'', JStr ''Policy evaluation failed''),
                    (''message'', JStr (exc_str w AttributeError))], 500))"
    using c i k ne dict_get_not_object [OF n]
    by (simp add: evaluate_policy_def lookup_default_def evaluation_failed_def)
qed

text \<open>
  Claim C8, amended, at an absent body, at a body without 'intent', at the send_email
  context, which is answered with status 200, and at a body whose 'intent' is a string.
\<close>

theorem evaluate_policy_requires_intent_witness:
  "evaluate_policy world0 JNull
     = ([], (JObj [(''error'', JStr ''Invalid request''),
                   (''message'', JStr ''Context with intent is required'')], 400))
   \<and> evaluate_policy world0 context_no_intent
     = ([], (JObj [(''error'', JStr ''Invalid request''),
                   (''message'', JStr ''Context with intent is required'')], 400))
   \<and> calculate_risk_score context_email (rand_risk world0) = Inr 29
   \<and> fst (evaluate_policy world0 context_email)
       = [Logger_info, Calculate_risk_score, Assess_risk_level, Generate_plan, Logger_info]
   \<and> snd (snd (evaluate_policy world0 context_email)) = 200
   \<and> fst (evaluate_policy world0 (JObj [(''intent'', JStr ''send_email'')])) = [Logger_error]
   \<and> snd (snd (evaluate_policy world0 (JObj [(''intent'', JStr ''send_email'')]))) = 500"
proof -
  note T = evaluate_policy_requires_intent [where w = world0]
  have n: "\<exists>kvs. context_no_intent = JObj kvs \<and> ''intent'' \<notin> fst ` set kvs"
    by (simp add: context_no_intent_def)
  have e: "\<exists>kvs ivs. context_email = JObj kvs \<and> map_of kvs ''intent'' = Some (JObj ivs)"
    by (simp add: context_email_def)
  have x: "\<exists>kvs v. JObj [(''intent'', JStr ''send_email'')] = JObj kvs
             \<and> map_of kvs ''intent'' = Some v \<and> \<not> (\<exists>ivs. v = JObj ivs)"
    by simp
  have s: "calculate_risk_score context_email (rand_risk world0) = Inr 29"
    by (simp add: context_email_def calculate_risk_score_def context_action_def
        context_user_id_def lookup_default_def ACTION_RISKS_def lower_char_def Let_def
        world0_def)
  have a: "evaluate_policy world0 JNull
     = ([], (JObj [(''error'', JStr ''Invalid request''),
                   (''message'', JStr ''Context with intent is required'')], 400))"
    using T [of JNull] by blast
  have b: "evaluate_policy world0 context_no_intent
     = ([], (JObj [(''error'', JStr ''Invalid request''),
                   (''message'', JStr ''Context with intent is required'')], 400))"
    using T [of context_no_intent] n by blast
  have c: "\<exists>plan. evaluate_policy world0 context_email
       = ([Logger_info, Calculate_risk_score, Assess_risk_level, Generate_plan, Logger_info],
          (plan, 200))"
    using T [of JNull context_email JNull] e s by auto
  have d: "evaluate_policy world0 (JObj [(''intent'', JStr ''send_email'')])
       = ([Logger_error],
          (JObj [(''error'', JStr ''Policy evaluation failed''),
                 (''message'', JStr (exc_str world0 AttributeError))], 500))"
    using T [of JNull JNull "JObj [(''intent'', JStr ''send_email'')]"] x by blast
  show ?thesis
    using a b s c d by auto
qed

text \<open>
  Claim C9, as stated, fails. A response with an error status whose body has no field
  'allowed' makes raise_for_status() raise, so check_permission raises HTTPStatusError
  and does not return False; a successful response whose body is null has no field
  'allowed' either, and the call of get on it raises AttributeError.
\<close>

theorem check_permission_raises:
  "check_permission \<lparr>raises_for_status = True, json_body = JObj [(''error'', JStr ''denied'')]\<rparr>
     = Inl HTTPStatusError
   \<and> ''allowed'' \<notin> fst ` set [(''error'', JStr ''denied'')]
   \<and> check_permission \<lparr>raises_for_status = False, json_body = JNull\<rparr> = Inl AttributeError"
  by (simp add: check_permission_def)

text \<open>
  Claim C9, amended. On a response with an error status check_permission raises
  HTTPStatusError. On a response that passes raise_for_status() and whose JSON body is an
  object, it returns False when the object has no field 'allowed', and otherwise the
  value of that field.
\<close>

theorem check_permission_default_deny:
  "(raises_for_status response0 \<longrightarrow> check_permission response0 = Inl HTTPStatusError)
   \<and> ((\<not> raises_for_status response \<and> json_body response = JObj kvs
       \<and> ''allowed'' \<notin> fst ` set kvs)
      \<longrightarrow> check_permission response = Inr (JBool False))
   \<and> ((\<not> raises_for_status response' \<and> json_body response' = JObj kvs'
        \<and> map_of kvs' ''allowed'' = Some v)
      \<longrightarrow> check_permission response' = Inr v)"
  by (auto simp: check_permission_def lookup_default_def map_of_eq_None_iff [symmetric])

text \<open>
  Claim C9, amended, at an error response, at a body without 'allowed' and at the body
  {"allowed": true}.
\<close>

theorem check_permission_default_deny_witness:
  "check_permission \<lparr>raises_for_status = True, json_body = JObj []\<rparr> = Inl HTTPStatusError
   \<and> check_permission \<lparr>raises_for_status = False, json_body = JObj [(''reason'', JStr ''x'')]\<rparr>
     = Inr (JBool False)
   \<and> check_permission \<lparr>raises_for_status = False, json_body = JObj [(''allowed'', JBool True)]\<rparr>
     = Inr (JBool True)"
  using check_permission_default_deny
    [of "\<lparr>raises_for_status = True, json_body = JObj []\<rparr>"
      "\<lparr>raises_for_status = False, json_body = JObj [(''reason'', JStr ''x'')]\<rparr>"
      "[(''reason'', JStr ''x'')]"
      "\<lparr>raises_for_status = False, json_body = JObj [(''allowed'', JBool True)]\<rparr>"
      "[(''allowed'', JBool True)]" "JBool True"]
  by simp

text \<open>
  Claim C10. For a context with a str action and a str user_id: when the user_id, in
  lower case, contains 'admin' or 'privileged', the base risk of the action (its entry
  in ACTION_RISKS, 50 when it has none) is lowered by 15 and floored at 0 before the
  random adjustment is added; for every other user_id the base risk is used unchanged.
  In both cases the sum is then clamped to 0..100.
\<close>

theorem calculate_risk_score_trusted_user:
  assumes "context_action context = Inr (JStr a)" and "context_user_id context = Inr (JStr u)"
  shows "calculate_risk_score context rnd =
     Inr (max 0 (min 100
       ((if sublist ''admin'' (map lower_char u) \<or> sublist ''privileged'' (map lower_char u)
         then max 0 (lookup_default ACTION_RISKS a 50 - 15)
         else lookup_default ACTION_RISKS a 50) + rnd)))"
  using assms by (simp add: calculate_risk_score_def Let_def str_contains_sublist)

text \<open>
  Claim C10 at the read_document context of the user 'Site-ADMIN-7': the base risk 10
  is floored at 0, and with the draw 3 the score is 3.
\<close>

theorem calculate_risk_score_trusted_user_witness:
  "context_action context_admin = Inr (JStr ''read_document'')
   \<and> context_user_id context_admin = Inr (JStr ''Site-ADMIN-7'')
   \<and> sublist ''admin'' (map lower_char ''Site-ADMIN-7'')
   \<and> calculate_risk_score context_admin 3 = Inr 3"
proof -
  have a: "context_action context_admin = Inr (JStr ''read_document'')"
    by (simp add: context_admin_def context_action_def lookup_default_def)
  have u: "context_user_id context_admin = Inr (JStr ''Site-ADMIN-7'')"
    by (simp add: context_admin_def context_user_id_def lookup_default_def)
  have t: "sublist ''admin'' (map lower_char ''Site-ADMIN-7'')"
    by (simp add: str_contains_sublist [symmetric] lower_char_def)
  have "calculate_risk_score context_admin 3 = Inr 3"
    using calculate_risk_score_trusted_user [OF a u, of 3] t
    by (simp add: lookup_default_def ACTION_RISKS_def)
  then show ?thesis
    using a u t by simp
qed

end
